theory Spec2Isabelle
  imports Main
begin

section \<open>Telemetry consumed by the control panels\<close>

text \<open>
  The panels of \<^verbatim>\<open>frontend/src/components/control\<close> read a \<^verbatim>\<open>PrinterStatus\<close>
  snapshot (a prop that may be \<^verbatim>\<open>null\<close> or \<^verbatim>\<open>undefined\<close>). Its declaration lives in
  \<^verbatim>\<open>api/client\<close>; the records below carry the fields the components read, with the
  nullability the accesses show (\<^verbatim>\<open>status?.stg_cur ?? -1\<close>, \<^verbatim>\<open>tray?.tray_color ?? null\<close>).
  Numbers that travel as JSON integers (ids, stages, percentages) are \<^typ>\<open>int\<close>.
\<close>

record AMSTray =
  id_tray :: int
  tray_type :: "string option"
  tray_color :: "string option"
  remain :: int
  tray_uuid :: "string option"

record AMSUnit =
  id_ams :: int
  humidity :: "int option"
  temp :: "int option"
  tray :: "AMSTray list"

text \<open>
  \<^verbatim>\<open>ams_extruder_map\<close> is a JSON object \<^verbatim>\<open>Record<string, number>\<close>: the list of its own
  properties in key order, read with \<^const>\<open>map_of\<close>.
\<close>

record PrinterStatus =
  connected :: bool
  state :: string
  stg_cur :: "int option"
  tray_now :: "int option"
  ams :: "AMSUnit list option"
  ams_extruder_map :: "(string \<times> int) list option"

section \<open>The remote command API\<close>

text \<open>
  The requests of \<^verbatim>\<open>api\<close> that the components issue, with their arguments in call
  order; the optional confirmation token and the optional extruder are \<open>None\<close> when
  the argument is \<^verbatim>\<open>undefined\<close>.
\<close>

datatype ApiCall =
    moveAxis int string int int "string option"
  | homeAxes int string "string option"
  | sendGcode int string "string option"
  | selectExtruder int int
  | amsLoadFilament int int "int option"
  | amsUnloadFilament int
  | refreshAmsTray int int int

text \<open>
  What a gated request resolves to: a confirmation-required shape carrying a token and a
  warning, or any other shape.
\<close>

datatype ApiResult =
    Done
  | ConfirmationRequired (result_token: string) (result_warning: string)

text \<open>
  Modelled from the spec: \<^verbatim>\<open>isConfirmationRequired\<close> is imported from \<^verbatim>\<open>api/client\<close>,
  which is not among the sources. The spec: a \<^verbatim>\<open>ConfirmationRequired\<close> result shape
  carries \<^verbatim>\<open>{token: string, warning: string}\<close>; any other shape is treated as immediate
  success or failure.
\<close>

definition isConfirmationRequired :: "ApiResult \<Rightarrow> bool" where
  "isConfirmationRequired r = (case r of ConfirmationRequired _ _ \<Rightarrow> True | Done \<Rightarrow> False)"

section \<open>Filament change stages\<close>

definition STAGE_HEATING_NOZZLE :: int where "STAGE_HEATING_NOZZLE = 7"
definition STAGE_FILAMENT_UNLOADING :: int where "STAGE_FILAMENT_UNLOADING = 22"
definition STAGE_FILAMENT_LOADING :: int where "STAGE_FILAMENT_LOADING = 24"
definition STAGE_CHANGING_FILAMENT :: int where "STAGE_CHANGING_FILAMENT = 4"

text \<open>
  The array literal
  \<^verbatim>\<open>[STAGE_HEATING_NOZZLE, STAGE_FILAMENT_UNLOADING, STAGE_FILAMENT_LOADING, STAGE_CHANGING_FILAMENT]\<close>
  that both \<^verbatim>\<open>isMqttFilamentChangeActive\<close> and \<^verbatim>\<open>wasInFilamentChange\<close> test with
  \<^verbatim>\<open>.includes\<close>.
\<close>

definition filamentChangeStages :: "int list" where
  "filamentChangeStages =
     [STAGE_HEATING_NOZZLE, STAGE_FILAMENT_UNLOADING, STAGE_FILAMENT_LOADING,
      STAGE_CHANGING_FILAMENT]"

definition includes_list :: "int list \<Rightarrow> int \<Rightarrow> bool" where
  "includes_list xs x = (x \<in> set xs)"

section \<open>State of \<^verbatim>\<open>AMSSectionDual\<close>\<close>

text \<open>
  Every control panel has the props \<^verbatim>\<open>printerId\<close> and \<^verbatim>\<open>status\<close>; \<open>sent\<close> lists the
  requests the panel has sent to the backend so far, oldest first.
\<close>

record Panel =
  printerId :: int
  status :: "PrinterStatus option"
  sent :: "ApiCall list"

text \<open>
  One mounted instance of the component: the props, the \<^verbatim>\<open>useState\<close> cells, the two
  \<^verbatim>\<open>useRef\<close> cells and the pending flags of the load and unload mutations.
  \<^verbatim>\<open>useEffect(f, deps)\<close> runs \<open>f\<close> after the first render and after every render
  whose dependency values differ from those of the render before; the fields
  \<open>syncDeps\<close> and \<open>stageDeps\<close> hold the dependency values of the last render
  (\<open>None\<close> before the component has mounted).
\<close>

record AMSSection = Panel +
  nozzleCount :: int
  leftAmsIndex :: nat
  rightAmsIndex :: nat
  selectedTray :: "int option"
  loadTriggered :: bool
  userFilamentChange :: "bool option"
  prevStageRef :: int
  initialSyncDone :: bool
  loadPending :: bool
  unloadPending :: bool
  syncDeps :: "int option option"
  stageDeps :: "(bool \<times> int) option"

text \<open>The state \<^verbatim>\<open>useState\<close> and \<^verbatim>\<open>useRef\<close> give a component before its first render.\<close>

definition initialSection :: "int \<Rightarrow> int \<Rightarrow> AMSSection" where
  "initialSection pid nozzles =
     \<lparr> printerId = pid, status = None, sent = [], nozzleCount = nozzles, leftAmsIndex = 0,
       rightAmsIndex = 0, selectedTray = None, loadTriggered = False,
       userFilamentChange = None, prevStageRef = - 1, initialSyncDone = False,
       loadPending = False, unloadPending = False, syncDeps = None, stageDeps = None \<rparr>"

subsection \<open>Values derived from the props on every render\<close>

definition isConnected :: "PrinterStatus option \<Rightarrow> bool" where
  "isConnected st = (case st of None \<Rightarrow> False | Some s \<Rightarrow> connected s)"

definition isPrinting :: "PrinterStatus option \<Rightarrow> bool" where
  "isPrinting st = (case st of None \<Rightarrow> False | Some s \<Rightarrow> state s = ''RUNNING'')"

definition amsUnits :: "PrinterStatus option \<Rightarrow> AMSUnit list" where
  "amsUnits st =
     (case st of None \<Rightarrow> []
      | Some s \<Rightarrow> (case ams s of None \<Rightarrow> [] | Some us \<Rightarrow> us))"

definition amsExtruderMap :: "PrinterStatus option \<Rightarrow> (string \<times> int) list" where
  "amsExtruderMap st =
     (case st of None \<Rightarrow> []
      | Some s \<Rightarrow> (case ams_extruder_map s of None \<Rightarrow> [] | Some m \<Rightarrow> m))"

definition statusTrayNow :: "PrinterStatus option \<Rightarrow> int option" where
  "statusTrayNow st = (case st of None \<Rightarrow> None | Some s \<Rightarrow> tray_now s)"

definition currentStage :: "PrinterStatus option \<Rightarrow> int" where
  "currentStage st =
     (case st of None \<Rightarrow> - 1
      | Some s \<Rightarrow> (case stg_cur s of None \<Rightarrow> - 1 | Some g \<Rightarrow> g))"

definition isMqttFilamentChangeActive :: "PrinterStatus option \<Rightarrow> bool" where
  "isMqttFilamentChangeActive st = includes_list filamentChangeStages (currentStage st)"

subsection \<open>The two effects\<close>

text \<open>Body of the initial-sync effect (dependencies \<^verbatim>\<open>[status?.tray_now]\<close>).\<close>

definition syncEffect :: "AMSSection \<Rightarrow> AMSSection" where
  "syncEffect s =
     (if initialSyncDone s then s
      else (case statusTrayNow (status s) of
              None \<Rightarrow> s
            | Some trayNow \<Rightarrow>
                (let s1 = s\<lparr>initialSyncDone := True\<rparr>
                 in if trayNow \<noteq> 255 \<and> trayNow \<noteq> 254
                    then s1\<lparr>selectedTray := Some trayNow, loadTriggered := True\<rparr>
                    else s1)))"

text \<open>
  Body of the auto-close effect (dependencies
  \<^verbatim>\<open>[isMqttFilamentChangeActive, currentStage]\<close>).
\<close>

definition stageEffect :: "AMSSection \<Rightarrow> AMSSection" where
  "stageEffect s =
     (let wasInFilamentChange = includes_list filamentChangeStages (prevStageRef s);
          s1 = (if isMqttFilamentChangeActive (status s)
                then s\<lparr>userFilamentChange := None\<rparr>
                else if wasInFilamentChange \<and> currentStage (status s) = - 1
                then s\<lparr>userFilamentChange := None\<rparr>
                else s)
      in s1\<lparr>prevStageRef := currentStage (status s)\<rparr>)"

text \<open>
  A render with new props: the props are stored, then each effect whose dependencies
  changed runs, in declaration order.
\<close>

definition runSyncEffect :: "AMSSection \<Rightarrow> AMSSection" where
  "runSyncEffect s =
     (let deps = statusTrayNow (status s)
      in if syncDeps s = Some deps then s
         else syncEffect (s\<lparr>syncDeps := Some deps\<rparr>))"

definition runStageEffect :: "AMSSection \<Rightarrow> AMSSection" where
  "runStageEffect s =
     (let deps = (isMqttFilamentChangeActive (status s), currentStage (status s))
      in if stageDeps s = Some deps then s
         else stageEffect (s\<lparr>stageDeps := Some deps\<rparr>))"

definition render :: "PrinterStatus option \<Rightarrow> AMSSection \<Rightarrow> AMSSection" where
  "render st s = runStageEffect (runSyncEffect (s\<lparr>status := st\<rparr>))"

subsection \<open>What the render shows\<close>



section \<open>JavaScript primitives used by the components\<close>

text \<open>
  \<^verbatim>\<open>String(n)\<close> and \<^verbatim>\<open>`${n}`\<close> on an integral number: the decimal numeral, with a
  leading minus sign for a negative one (ECMAScript \<^verbatim>\<open>Number::toString\<close>, for magnitudes
  below \<open>10\<^sup>2\<^sup>1\<close>).
\<close>

definition digit_char :: "nat \<Rightarrow> char" where
  "digit_char d = ''0123456789'' ! d"

fun string_of_nat :: "nat \<Rightarrow> string" where
  "string_of_nat n =
     (if n < 10 then [digit_char n]
      else string_of_nat (n div 10) @ [digit_char (n mod 10)])"

declare string_of_nat.simps [simp del]

definition String :: "int \<Rightarrow> string" where
  "String n = (if n < 0 then CHR ''-'' # string_of_nat (nat (- n)) else string_of_nat (nat n))"

text \<open>\<^verbatim>\<open>Array.prototype.filter\<close> with a callback that reads the element and its index.\<close>

fun filter_index :: "('a \<Rightarrow> nat \<Rightarrow> bool) \<Rightarrow> nat \<Rightarrow> 'a list \<Rightarrow> 'a list" where
  "filter_index p i [] = []"
| "filter_index p i (x # xs) =
     (if p x i then x # filter_index p (Suc i) xs else filter_index p (Suc i) xs)"

text \<open>\<^verbatim>\<open>xs[i]\<close>: \<^verbatim>\<open>undefined\<close> when the index is out of range.\<close>

definition at_index :: "'a list \<Rightarrow> nat \<Rightarrow> 'a option" where
  "at_index xs i = (if i < length xs then Some (xs ! i) else None)"

definition Object_keys :: "(string \<times> int) list \<Rightarrow> string list" where
  "Object_keys m = map fst m"

section \<open>Unit-to-extruder routing\<close>

definition isDualNozzle :: "AMSSection \<Rightarrow> bool" where
  "isDualNozzle s = (nozzleCount s > 1)"

definition leftUnits :: "AMSSection \<Rightarrow> AMSUnit list" where
  "leftUnits s =
     (if \<not> isDualNozzle s then amsUnits (status s)
      else if length (Object_keys (amsExtruderMap (status s))) > 0
      then filter (\<lambda>unit. map_of (amsExtruderMap (status s)) (String (id_ams unit)) = Some 1)
             (amsUnits (status s))
      else filter_index (\<lambda>_ i. i mod 2 = 1) 0 (amsUnits (status s)))"

definition rightUnits :: "AMSSection \<Rightarrow> AMSUnit list" where
  "rightUnits s =
     (if \<not> isDualNozzle s then []
      else if length (Object_keys (amsExtruderMap (status s))) > 0
      then filter (\<lambda>unit. map_of (amsExtruderMap (status s)) (String (id_ams unit)) = Some 0)
             (amsUnits (status s))
      else filter_index (\<lambda>_ i. i mod 2 = 0) 0 (amsUnits (status s)))"

section \<open>Tray addressing\<close>

definition isAmsHT :: "int \<Rightarrow> bool" where
  "isAmsHT amsId = (amsId \<ge> 128)"

text \<open>
  The search that \<^verbatim>\<open>getExtruderIdForTray\<close> and \<^verbatim>\<open>getLoadedTrayInfo\<close> both run:
  \<^verbatim>\<open>for (const unit of amsUnits)\<close>, returning from the first unit whose block
  \<^verbatim>\<open>[baseSlotId, baseSlotId + slotsInUnit)\<close> holds the id. The result is that unit and
  \<^verbatim>\<open>trayNow - baseSlotId\<close>; \<open>None\<close> when the loop falls through.
\<close>

fun findTrayUnit :: "int \<Rightarrow> AMSUnit list \<Rightarrow> (AMSUnit \<times> int) option" where
  "findTrayUnit trayId [] = None"
| "findTrayUnit trayId (unit # rest) =
     (let slotsInUnit = (if id_ams unit \<ge> 128 then 2 else 4);
          baseSlotId = id_ams unit * 4
      in if trayId \<ge> baseSlotId \<and> trayId < baseSlotId + slotsInUnit
         then Some (unit, trayId - baseSlotId)
         else findTrayUnit trayId rest)"

definition getExtruderIdForTray :: "AMSSection \<Rightarrow> int \<Rightarrow> int option" where
  "getExtruderIdForTray s trayId =
     (if \<not> isDualNozzle s then None
      else (case findTrayUnit trayId (amsUnits (status s)) of
              None \<Rightarrow> None
            | Some (unit, _) \<Rightarrow> map_of (amsExtruderMap (status s)) (String (id_ams unit))))"

record LoadedTrayInfo =
  leftActiveSlot :: "int option"
  rightActiveSlot :: "int option"
  leftFilamentColor :: "string option"
  rightFilamentColor :: "string option"

definition noLoadedTray :: LoadedTrayInfo where
  "noLoadedTray =
     \<lparr> leftActiveSlot = None, rightActiveSlot = None, leftFilamentColor = None,
       rightFilamentColor = None \<rparr>"

definition getLoadedTrayInfo :: "AMSSection \<Rightarrow> LoadedTrayInfo" where
  "getLoadedTrayInfo s =
     (let trayNow = (case statusTrayNow (status s) of None \<Rightarrow> 255 | Some t \<Rightarrow> t)
      in if trayNow = 255 \<or> trayNow = 254 then noLoadedTray
         else (case findTrayUnit trayNow (amsUnits (status s)) of
                 None \<Rightarrow> noLoadedTray
               | Some (unit, slotIndex) \<Rightarrow>
                   (let color = (case at_index (tray unit) (nat slotIndex) of
                                   None \<Rightarrow> None | Some t \<Rightarrow> tray_color t);
                        extruderId = map_of (amsExtruderMap (status s)) (String (id_ams unit));
                        currentLeftUnit = at_index (leftUnits s) (leftAmsIndex s);
                        currentRightUnit = at_index (rightUnits s) (rightAmsIndex s)
                    in if extruderId = Some 1
                       then (let isDisplayed = (map_option id_ams currentLeftUnit = Some (id_ams unit))
                             in \<lparr> leftActiveSlot = (if isDisplayed then Some slotIndex else None),
                                  rightActiveSlot = None,
                                  leftFilamentColor = (if isDisplayed then color else None),
                                  rightFilamentColor = None \<rparr>)
                       else (let isDisplayed = (map_option id_ams currentRightUnit = Some (id_ams unit))
                             in \<lparr> leftActiveSlot = None,
                                  rightActiveSlot = (if isDisplayed then Some slotIndex else None),
                                  leftFilamentColor = None,
                                  rightFilamentColor = (if isDisplayed then color else None) \<rparr>))))"

section \<open>Handlers of \<^verbatim>\<open>AMSSectionDual\<close>\<close>

text \<open>
  \<^verbatim>\<open>mutation.mutate(variables)\<close> sends the request of \<^verbatim>\<open>mutationFn\<close> and keeps
  \<^verbatim>\<open>isPending\<close> true until the request settles.
\<close>

definition loadMutation_mutate :: "int \<Rightarrow> int option \<Rightarrow> AMSSection \<Rightarrow> AMSSection" where
  "loadMutation_mutate trayId extruderId s =
     s\<lparr>loadPending := True,
       sent := sent s @ [amsLoadFilament (printerId s) trayId extruderId]\<rparr>"

definition loadMutation_onSuccess :: "AMSSection \<Rightarrow> AMSSection" where
  "loadMutation_onSuccess s = s\<lparr>loadPending := False, loadTriggered := True\<rparr>"

definition loadMutation_onError :: "AMSSection \<Rightarrow> AMSSection" where
  "loadMutation_onError s = s\<lparr>loadPending := False\<rparr>"

definition unloadMutation_mutate :: "AMSSection \<Rightarrow> AMSSection" where
  "unloadMutation_mutate s =
     s\<lparr>unloadPending := True, sent := sent s @ [amsUnloadFilament (printerId s)]\<rparr>"

definition unloadMutation_onSuccess :: "AMSSection \<Rightarrow> AMSSection" where
  "unloadMutation_onSuccess s = s\<lparr>unloadPending := False, loadTriggered := False\<rparr>"

definition unloadMutation_onError :: "AMSSection \<Rightarrow> AMSSection" where
  "unloadMutation_onError s = s\<lparr>unloadPending := False\<rparr>"

definition handleTraySelect :: "int option \<Rightarrow> AMSSection \<Rightarrow> AMSSection" where
  "handleTraySelect trayId s =
     (let s1 = (if trayId \<noteq> selectedTray s then s\<lparr>loadTriggered := False\<rparr> else s)
      in s1\<lparr>selectedTray := trayId\<rparr>)"

definition handleLoad :: "AMSSection \<Rightarrow> AMSSection" where
  "handleLoad s =
     (case selectedTray s of
        None \<Rightarrow> s
      | Some t \<Rightarrow>
          (let extruderId = getExtruderIdForTray s t
           in loadMutation_mutate t extruderId (s\<lparr>userFilamentChange := Some True\<rparr>)))"

definition handleUnload :: "AMSSection \<Rightarrow> AMSSection" where
  "handleUnload s = unloadMutation_mutate (s\<lparr>userFilamentChange := Some False\<rparr>)"

definition isLoading :: "AMSSection \<Rightarrow> bool" where
  "isLoading s = (loadPending s \<or> unloadPending s)"

text \<open>The \<^verbatim>\<open>disabled\<close> attributes of the Unload and Load buttons.\<close>

definition unloadDisabled :: "AMSSection \<Rightarrow> bool" where
  "unloadDisabled s =
     (\<not> isConnected (status s) \<or> isPrinting (status s) \<or> isLoading s \<or> \<not> loadTriggered s)"

definition loadDisabled :: "AMSSection \<Rightarrow> bool" where
  "loadDisabled s =
     (\<not> isConnected (status s) \<or> isPrinting (status s) \<or> selectedTray s = None
      \<or> isLoading s \<or> loadTriggered s)"

subsection \<open>A tray slot of \<^verbatim>\<open>AMSPanelContent\<close>\<close>

definition isEmpty :: "AMSTray \<Rightarrow> bool" where
  "isEmpty t = (case tray_type t of None \<Rightarrow> True | Some ty \<Rightarrow> ty = [] \<or> ty = ''NONE'')"

definition globalTrayId :: "AMSUnit \<Rightarrow> AMSTray \<Rightarrow> int" where
  "globalTrayId selectedUnit t = id_ams selectedUnit * 4 + id_tray t"

text \<open>
  The \<^verbatim>\<open>onClick\<close> of a slot, with \<^verbatim>\<open>onSelectTray = handleTraySelect\<close> as
  \<^verbatim>\<open>AMSSectionDual\<close> passes it.
\<close>

definition slotClick :: "AMSUnit \<Rightarrow> AMSTray \<Rightarrow> AMSSection \<Rightarrow> AMSSection" where
  "slotClick selectedUnit t s =
     (let isSelected = (selectedTray s = Some (globalTrayId selectedUnit t))
      in if \<not> isEmpty t \<and> \<not> isPrinting (status s)
         then handleTraySelect (if isSelected then None else Some (globalTrayId selectedUnit t)) s
         else s)"

subsection \<open>Events of a mounted section\<close>

text \<open>
  What can happen to a mounted \<^verbatim>\<open>AMSSectionDual\<close>: a new status snapshot arrives, a
  button or slot is clicked (a disabled button fires no handler), or a pending
  mutation settles.
\<close>

datatype SectionEvent =
    StatusUpdate "PrinterStatus option"
  | LoadClick
  | UnloadClick
  | SlotClick AMSUnit AMSTray
  | SelectLeftAms nat
  | SelectRightAms nat
  | LoadSettled bool
  | UnloadSettled bool

fun sectionStep :: "AMSSection \<Rightarrow> SectionEvent \<Rightarrow> AMSSection" where
  "sectionStep s (StatusUpdate st) = render st s"
| "sectionStep s LoadClick = (if loadDisabled s then s else handleLoad s)"
| "sectionStep s UnloadClick = (if unloadDisabled s then s else handleUnload s)"
| "sectionStep s (SlotClick u t) = slotClick u t s"
| "sectionStep s (SelectLeftAms i) = s\<lparr>leftAmsIndex := i\<rparr>"
| "sectionStep s (SelectRightAms i) = s\<lparr>rightAmsIndex := i\<rparr>"
| "sectionStep s (LoadSettled ok) =
     (if \<not> loadPending s then s
      else if ok then loadMutation_onSuccess s else loadMutation_onError s)"
| "sectionStep s (UnloadSettled ok) =
     (if \<not> unloadPending s then s
      else if ok then unloadMutation_onSuccess s else unloadMutation_onError s)"

definition sectionRun :: "AMSSection \<Rightarrow> SectionEvent list \<Rightarrow> AMSSection" where
  "sectionRun s es = foldl sectionStep s es"

section \<open>Colours and the fill bar of a slot\<close>

text \<open>
  A \<^typ>\<open>string\<close> holds the code units of a JavaScript string, each below 256.
  \<^verbatim>\<open>parseInt(s, 16)\<close>: leading white space is skipped, then an optional sign, then an
  optional \<^verbatim>\<open>0x\<close> or \<^verbatim>\<open>0X\<close>, then the longest run of hexadecimal digits; \<open>None\<close> is
  \<^verbatim>\<open>NaN\<close>, returned when that run is empty. White space below 256 is TAB, LF, VT, FF,
  CR, SP and NBSP.
\<close>

definition isWhiteSpace :: "char \<Rightarrow> bool" where
  "isWhiteSpace c = ((of_char c :: nat) \<in> set [9, 10, 11, 12, 13, 32, 160])"

definition hexDigit :: "char \<Rightarrow> nat option" where
  "hexDigit c =
     (let n = (of_char c :: nat)
      in if 48 \<le> n \<and> n \<le> 57 then Some (n - 48)
         else if 65 \<le> n \<and> n \<le> 70 then Some (n - 55)
         else if 97 \<le> n \<and> n \<le> 102 then Some (n - 87)
         else None)"

definition parseInt16 :: "string \<Rightarrow> int option" where
  "parseInt16 inputString =
     (let S = dropWhile isWhiteSpace inputString;
          sign = (if S \<noteq> [] \<and> hd S = CHR ''-'' then - 1 else 1 :: int);
          S1 = (if S \<noteq> [] \<and> (hd S = CHR ''+'' \<or> hd S = CHR ''-'') then tl S else S);
          S2 = (if length S1 \<ge> 2 \<and> (take 2 S1 = ''0x'' \<or> take 2 S1 = ''0X'')
                then drop 2 S1 else S1);
          Z = takeWhile (\<lambda>c. hexDigit c \<noteq> None) S2
      in if Z = [] then None
         else Some (sign * int (foldl (\<lambda>a c. 16 * a + the (hexDigit c)) 0 Z)))"

text \<open>\<^verbatim>\<open>s.replace('#', '')\<close>: the first occurrence only.\<close>

fun replace_first :: "char \<Rightarrow> string \<Rightarrow> string" where
  "replace_first c [] = []"
| "replace_first c (x # xs) = (if x = c then xs else x # replace_first c xs)"

definition substring :: "string \<Rightarrow> nat \<Rightarrow> nat \<Rightarrow> string" where
  "substring s a b = take (b - a) (drop a s)"

text \<open>\<^verbatim>\<open>parseInt(...) || 128\<close>: \<^verbatim>\<open>NaN\<close> and zero are falsy.\<close>

definition or_default :: "int option \<Rightarrow> int \<Rightarrow> int" where
  "or_default v d = (case v of None \<Rightarrow> d | Some n \<Rightarrow> if n = 0 then d else n)"

definition hexToRgb :: "string option \<Rightarrow> string" where
  "hexToRgb hex =
     (case hex of
        None \<Rightarrow> ''rgb(128, 128, 128)''
      | Some h \<Rightarrow>
          if h = [] then ''rgb(128, 128, 128)''
          else (let cleanHex = substring (replace_first CHR ''#'' h) 0 6;
                    r = or_default (parseInt16 (substring cleanHex 0 2)) 128;
                    g = or_default (parseInt16 (substring cleanHex 2 4)) 128;
                    b = or_default (parseInt16 (substring cleanHex 4 6)) 128
                in ''rgb('' @ String r @ '', '' @ String g @ '', '' @ String b @ '')''))"

text \<open>
  The three conditionally rendered layers of a slot, in markup order: the fill-level
  bar (height in percent and colour), the full colour background, the striped
  pattern of an empty slot.
\<close>

datatype SlotLayer = FillLevel int string | FullColor string | Striped

definition truthy :: "string option \<Rightarrow> bool" where
  "truthy v = (case v of None \<Rightarrow> False | Some s \<Rightarrow> s \<noteq> [])"

definition slotLayers :: "AMSTray \<Rightarrow> SlotLayer list" where
  "slotLayers t =
     (if \<not> isEmpty t \<and> truthy (tray_uuid t) \<and> remain t \<ge> 0
      then [FillLevel (min 100 (max 0 (remain t))) (hexToRgb (tray_color t))] else [])
     @ (if \<not> isEmpty t \<and> (\<not> truthy (tray_uuid t) \<or> remain t < 0)
        then [FullColor (hexToRgb (tray_color t))] else [])
     @ (if isEmpty t then [Striped] else [])"

definition isFillLevel :: "SlotLayer \<Rightarrow> bool" where
  "isFillLevel l = (case l of FillLevel _ _ \<Rightarrow> True | _ \<Rightarrow> False)"

section \<open>Confirmation-gated panels\<close>

text \<open>
  \<^verbatim>\<open>JogPad\<close>, \<^verbatim>\<open>ExtruderControls\<close> and \<^verbatim>\<open>BedControls\<close> each keep a \<^verbatim>\<open>confirmModal\<close>
  cell. A mutation is the variables of its request in flight (\<open>None\<close> when idle), so
  \<^verbatim>\<open>isPending\<close> is that it is not \<open>None\<close>, and \<^verbatim>\<open>onSuccess(result, variables)\<close>
  receives the variables \<^verbatim>\<open>mutate\<close> was called with.
\<close>

record ConfirmPrompt =
  token :: string
  warning :: string

text \<open>The closure stored as \<^verbatim>\<open>onConfirm\<close>: the \<^verbatim>\<open>mutate\<close> call it makes.\<close>

datatype JogThunk =
    homeMutation_mutate_call string "string option"
  | moveMutation_mutate_call string int "string option"

record JogConfirm = ConfirmPrompt +
  action :: string
  onConfirm :: JogThunk

record DistanceConfirm = ConfirmPrompt +
  distance :: int

record 'm GatedPanel = Panel +
  disabled :: bool
  confirmModal :: "'m option"

definition panelConnected :: "('m, 'z) GatedPanel_scheme \<Rightarrow> bool" where
  "panelConnected p = (isConnected (status p) \<and> \<not> disabled p)"

subsection \<open>\<^verbatim>\<open>JogPad\<close>\<close>

record JogPad = "JogConfirm GatedPanel" +
  homeMutation :: "(string \<times> string option) option"
  moveMutation :: "(string \<times> int \<times> string option) option"

definition homeMutation_mutate :: "string \<Rightarrow> string option \<Rightarrow> JogPad \<Rightarrow> JogPad" where
  "homeMutation_mutate axes tok p =
     p\<lparr>homeMutation := Some (axes, tok),
       sent := sent p @ [homeAxes (printerId p) axes tok]\<rparr>"

definition moveMutation_mutate :: "string \<Rightarrow> int \<Rightarrow> string option \<Rightarrow> JogPad \<Rightarrow> JogPad" where
  "moveMutation_mutate axis dist tok p =
     p\<lparr>moveMutation := Some (axis, dist, tok),
       sent := sent p @ [moveAxis (printerId p) axis dist 3000 tok]\<rparr>"

definition homeMutation_onSuccess :: "ApiResult \<Rightarrow> JogPad \<Rightarrow> JogPad" where
  "homeMutation_onSuccess result p =
     (if isConfirmationRequired result
      then p\<lparr>confirmModal :=
               Some \<lparr> token = result_token result, warning = result_warning result,
                      action = ''home'',
                      onConfirm = homeMutation_mutate_call ''XY'' (Some (result_token result)) \<rparr>\<rparr>
      else p)"

definition moveMutation_onSuccess ::
  "ApiResult \<Rightarrow> string \<times> int \<times> string option \<Rightarrow> JogPad \<Rightarrow> JogPad" where
  "moveMutation_onSuccess result variables p =
     (if isConfirmationRequired result
      then p\<lparr>confirmModal :=
               Some \<lparr> token = result_token result, warning = result_warning result,
                      action = ''move'',
                      onConfirm = moveMutation_mutate_call (fst variables) (fst (snd variables))
                                    (Some (result_token result)) \<rparr>\<rparr>
      else p)"

definition isDisabled_JogPad :: "JogPad \<Rightarrow> bool" where
  "isDisabled_JogPad p =
     (let isLoading = (homeMutation p \<noteq> None \<or> moveMutation p \<noteq> None)
      in \<not> panelConnected p \<or> isLoading)"

definition handleHome :: "JogPad \<Rightarrow> JogPad" where
  "handleHome p = (if isDisabled_JogPad p then p else homeMutation_mutate ''XY'' None p)"

definition handleMove :: "string \<Rightarrow> int \<Rightarrow> JogPad \<Rightarrow> JogPad" where
  "handleMove axis dist p = (if isDisabled_JogPad p then p else moveMutation_mutate axis dist None p)"

fun callThunk :: "JogThunk \<Rightarrow> JogPad \<Rightarrow> JogPad" where
  "callThunk (homeMutation_mutate_call axes tok) p = homeMutation_mutate axes tok p"
| "callThunk (moveMutation_mutate_call axis dist tok) p = moveMutation_mutate axis dist tok p"

definition handleConfirm_JogPad :: "JogPad \<Rightarrow> JogPad" where
  "handleConfirm_JogPad p =
     (case confirmModal p of
        None \<Rightarrow> p
      | Some m \<Rightarrow> (callThunk (onConfirm m) p)\<lparr>confirmModal := None\<rparr>)"

text \<open>\<^verbatim>\<open>onCancel={() => setConfirmModal(null)}\<close>, the same in the three panels.\<close>

definition onCancel :: "('m, 'z) GatedPanel_scheme \<Rightarrow> ('m, 'z) GatedPanel_scheme" where
  "onCancel p = p\<lparr>confirmModal := None\<rparr>"

text \<open>A request of the pad settles: with a result, or with an error (\<open>None\<close>).\<close>

definition homeSettled :: "ApiResult option \<Rightarrow> JogPad \<Rightarrow> JogPad" where
  "homeSettled r p =
     (case homeMutation p of
        None \<Rightarrow> p
      | Some variables \<Rightarrow>
          (case r of None \<Rightarrow> p\<lparr>homeMutation := None\<rparr>
           | Some result \<Rightarrow> homeMutation_onSuccess result (p\<lparr>homeMutation := None\<rparr>)))"

definition moveSettled :: "ApiResult option \<Rightarrow> JogPad \<Rightarrow> JogPad" where
  "moveSettled r p =
     (case moveMutation p of
        None \<Rightarrow> p
      | Some variables \<Rightarrow>
          (case r of None \<Rightarrow> p\<lparr>moveMutation := None\<rparr>
           | Some result \<Rightarrow> moveMutation_onSuccess result variables (p\<lparr>moveMutation := None\<rparr>)))"

definition initialJogPad :: "int \<Rightarrow> PrinterStatus option \<Rightarrow> bool \<Rightarrow> JogPad" where
  "initialJogPad pid st dis =
     \<lparr> printerId = pid, status = st, sent = [], disabled = dis, confirmModal = None,
       homeMutation = None, moveMutation = None \<rparr>"

subsection \<open>\<^verbatim>\<open>ExtruderControls\<close>\<close>

record ExtruderControls = "DistanceConfirm GatedPanel" +
  extrudeMutation :: "(int \<times> string option) option"

text \<open>
  The template literal \<^verbatim>\<open>`G91\nG1 E${distance} F300\nG90`\<close>; the buttons pass the
  distances 5 and -5.
\<close>

definition newline :: char where
  "newline = CHR 0x0A"

definition extrudeGcode :: "int \<Rightarrow> string" where
  "extrudeGcode dist =
     ''G91'' @ [newline] @ ''G1 E'' @ String dist @ '' F300'' @ [newline] @ ''G90''"

definition extrudeMutation_mutate ::
  "int \<Rightarrow> string option \<Rightarrow> ExtruderControls \<Rightarrow> ExtruderControls" where
  "extrudeMutation_mutate dist tok p =
     p\<lparr>extrudeMutation := Some (dist, tok),
       sent := sent p @ [sendGcode (printerId p) (extrudeGcode dist) tok]\<rparr>"

definition extrudeMutation_onSuccess ::
  "ApiResult \<Rightarrow> int \<times> string option \<Rightarrow> ExtruderControls \<Rightarrow> ExtruderControls" where
  "extrudeMutation_onSuccess result variables p =
     (if isConfirmationRequired result
      then p\<lparr>confirmModal :=
               Some \<lparr> token = result_token result, warning = result_warning result,
                      distance = fst variables \<rparr>\<rparr>
      else p)"

definition handleExtrude :: "int \<Rightarrow> ExtruderControls \<Rightarrow> ExtruderControls" where
  "handleExtrude dist p = extrudeMutation_mutate dist None p"

definition handleConfirm_Extruder :: "ExtruderControls \<Rightarrow> ExtruderControls" where
  "handleConfirm_Extruder p =
     (case confirmModal p of
        None \<Rightarrow> p
      | Some m \<Rightarrow> (extrudeMutation_mutate (distance m) (Some (token m)) p)\<lparr>confirmModal := None\<rparr>)"

definition isPrinting_Extruder :: "PrinterStatus option \<Rightarrow> bool" where
  "isPrinting_Extruder st =
     (case st of None \<Rightarrow> False | Some s \<Rightarrow> state s = ''RUNNING'' \<or> state s = ''PAUSE'')"

definition isDisabled_Extruder :: "ExtruderControls \<Rightarrow> bool" where
  "isDisabled_Extruder p =
     (\<not> panelConnected p \<or> isPrinting_Extruder (status p) \<or> extrudeMutation p \<noteq> None)"

text \<open>The Extrude and Retract buttons; a disabled button fires no handler.\<close>

definition extrudeClick :: "ExtruderControls \<Rightarrow> ExtruderControls" where
  "extrudeClick p = (if isDisabled_Extruder p then p else handleExtrude 5 p)"

definition retractClick :: "ExtruderControls \<Rightarrow> ExtruderControls" where
  "retractClick p = (if isDisabled_Extruder p then p else handleExtrude (- 5) p)"

definition extrudeSettled :: "ApiResult option \<Rightarrow> ExtruderControls \<Rightarrow> ExtruderControls" where
  "extrudeSettled r p =
     (case extrudeMutation p of
        None \<Rightarrow> p
      | Some variables \<Rightarrow>
          (case r of None \<Rightarrow> p\<lparr>extrudeMutation := None\<rparr>
           | Some result \<Rightarrow>
               extrudeMutation_onSuccess result variables (p\<lparr>extrudeMutation := None\<rparr>)))"

definition initialExtruderControls ::
  "int \<Rightarrow> PrinterStatus option \<Rightarrow> bool \<Rightarrow> ExtruderControls" where
  "initialExtruderControls pid st dis =
     \<lparr> printerId = pid, status = st, sent = [], disabled = dis, confirmModal = None,
       extrudeMutation = None \<rparr>"

text \<open>The lines of a command text: the pieces between line feeds.\<close>

fun split_lines :: "string \<Rightarrow> string list" where
  "split_lines [] = [[]]"
| "split_lines (c # cs) =
     (if c = newline then [] # split_lines cs
      else (case split_lines cs of [] \<Rightarrow> [[c]] | l # ls \<Rightarrow> (c # l) # ls))"

subsection \<open>\<^verbatim>\<open>BedControls\<close>\<close>

record BedControls = "DistanceConfirm GatedPanel" +
  moveMutation_Bed :: "(int \<times> string option) option"

definition moveMutation_Bed_mutate :: "int \<Rightarrow> string option \<Rightarrow> BedControls \<Rightarrow> BedControls" where
  "moveMutation_Bed_mutate dist tok p =
     p\<lparr>moveMutation_Bed := Some (dist, tok),
       sent := sent p @ [moveAxis (printerId p) ''Z'' dist 1000 tok]\<rparr>"

definition moveMutation_Bed_onSuccess ::
  "ApiResult \<Rightarrow> int \<times> string option \<Rightarrow> BedControls \<Rightarrow> BedControls" where
  "moveMutation_Bed_onSuccess result variables p =
     (if isConfirmationRequired result
      then p\<lparr>confirmModal :=
               Some \<lparr> token = result_token result, warning = result_warning result,
                      distance = fst variables \<rparr>\<rparr>
      else p)"

definition handleMove_Bed :: "int \<Rightarrow> BedControls \<Rightarrow> BedControls" where
  "handleMove_Bed dist p = moveMutation_Bed_mutate dist None p"

definition handleConfirm_Bed :: "BedControls \<Rightarrow> BedControls" where
  "handleConfirm_Bed p =
     (case confirmModal p of
        None \<Rightarrow> p
      | Some m \<Rightarrow> (moveMutation_Bed_mutate (distance m) (Some (token m)) p)\<lparr>confirmModal := None\<rparr>)"

definition isDisabled_Bed :: "BedControls \<Rightarrow> bool" where
  "isDisabled_Bed p = (\<not> panelConnected p \<or> moveMutation_Bed p \<noteq> None)"

definition bedClick :: "int \<Rightarrow> BedControls \<Rightarrow> BedControls" where
  "bedClick dist p = (if isDisabled_Bed p then p else handleMove_Bed dist p)"

definition bedMoveSettled :: "ApiResult option \<Rightarrow> BedControls \<Rightarrow> BedControls" where
  "bedMoveSettled r p =
     (case moveMutation_Bed p of
        None \<Rightarrow> p
      | Some variables \<Rightarrow>
          (case r of None \<Rightarrow> p\<lparr>moveMutation_Bed := None\<rparr>
           | Some result \<Rightarrow>
               moveMutation_Bed_onSuccess result variables (p\<lparr>moveMutation_Bed := None\<rparr>)))"

definition initialBedControls :: "int \<Rightarrow> PrinterStatus option \<Rightarrow> bool \<Rightarrow> BedControls" where
  "initialBedControls pid st dis =
     \<lparr> printerId = pid, status = st, sent = [], disabled = dis, confirmModal = None,
       moveMutation_Bed = None \<rparr>"

section \<open>Sample telemetry\<close>

text \<open>A connected, idle printer that reports the stage \<open>g\<close> and no loaded tray.\<close>

definition stageSnapshot :: "int \<Rightarrow> PrinterStatus option" where
  "stageSnapshot g =
     Some \<lparr> connected = True, state = ''IDLE'', stg_cur = Some g, tray_now = None,
            ams = None, ams_extruder_map = None \<rparr>"

text \<open>A connected, idle printer that reports \<^verbatim>\<open>tray_now = t\<close> and no stage.\<close>

definition traySnapshot :: "int \<Rightarrow> PrinterStatus option" where
  "traySnapshot t =
     Some \<lparr> connected = True, state = ''IDLE'', stg_cur = None, tray_now = Some t,
            ams = None, ams_extruder_map = None \<rparr>"


text \<open>An empty slot: no filament type, no colour, no RFID tag, unknown remaining quantity.\<close>

definition emptySlot :: AMSTray where
  "emptySlot =
     \<lparr> id_tray = 0, tray_type = Some [], tray_color = None, remain = - 1, tray_uuid = None \<rparr>"

text \<open>A third-party spool in slot \<open>i\<close>: a type and a colour, no RFID tag.\<close>

definition plainSpool :: "int \<Rightarrow> AMSTray" where
  "plainSpool i =
     \<lparr> id_tray = i, tray_type = Some ''PLA'', tray_color = Some ''FF8040FF'', remain = - 1,
       tray_uuid = None \<rparr>"

text \<open>A unit with the id \<open>i\<close> and two such spools.\<close>

definition sampleUnit :: "int \<Rightarrow> AMSUnit" where
  "sampleUnit i =
     \<lparr> id_ams = i, humidity = None, temp = None, tray = [plainSpool 0, plainSpool 1] \<rparr>"

text \<open>A dual-nozzle printer with the units 0, 1 and 128 and the given assignment map.\<close>

definition routedSection :: "(string \<times> int) list \<Rightarrow> AMSSection" where
  "routedSection m =
     (initialSection 1 2)
       \<lparr>status := Some \<lparr> connected = True, state = ''IDLE'', stg_cur = None, tray_now = None,
                          ams = Some [sampleUnit 0, sampleUnit 1, sampleUnit 128],
                          ams_extruder_map = Some m \<rparr>\<rparr>"

text \<open>
  The same printer with tray \<open>t\<close> in the nozzle and the second left unit on display.
\<close>

definition loadedSection :: "(string \<times> int) list \<Rightarrow> int \<Rightarrow> AMSSection" where
  "loadedSection m t =
     (initialSection 1 2)
       \<lparr>status := Some \<lparr> connected = True, state = ''IDLE'', stg_cur = None, tray_now = Some t,
                          ams = Some [sampleUnit 0, sampleUnit 1, sampleUnit 128],
                          ams_extruder_map = Some m \<rparr>,
         leftAmsIndex := 1\<rparr>"

section \<open>Notions used in the proofs\<close>

text \<open>The elements of a list at the even and at the odd positions.\<close>

definition evens :: "'a list \<Rightarrow> 'a list" where
  "evens xs = map (\<lambda>k. xs ! (2 * k)) [0..<(length xs + 1) div 2]"

definition odds :: "'a list \<Rightarrow> 'a list" where
  "odds xs = map (\<lambda>k. xs ! (2 * k + 1)) [0..<length xs div 2]"


text \<open>
  A section that has not yet seen a non-null \<^verbatim>\<open>tray_now\<close>: the sync is still open and
  nothing is selected.
\<close>

definition unsynced :: "AMSSection \<Rightarrow> bool" where
  "unsynced s \<longleftrightarrow>
     \<not> initialSyncDone s \<and> selectedTray s = None \<and> \<not> loadTriggered s
     \<and> (syncDeps s = None \<or> syncDeps s = Some None)"

section \<open>Facts about renders and events\<close>




lemma currentStage_stageSnapshot [simp]: "currentStage (stageSnapshot g) = g"
  by (simp add: currentStage_def stageSnapshot_def)

lemma statusTrayNow_traySnapshot [simp]: "statusTrayNow (traySnapshot t) = Some t"
  by (simp add: statusTrayNow_def traySnapshot_def)

lemma statusTrayNow_stageSnapshot [simp]: "statusTrayNow (stageSnapshot g) = None"
  by (simp add: statusTrayNow_def stageSnapshot_def)

lemma currentStage_traySnapshot [simp]: "currentStage (traySnapshot t) = - 1"
  by (simp add: currentStage_def traySnapshot_def)

lemma runSyncEffect_stage_fields [simp]:
  "userFilamentChange (runSyncEffect s) = userFilamentChange s"
  "prevStageRef (runSyncEffect s) = prevStageRef s"
  "stageDeps (runSyncEffect s) = stageDeps s"
  "status (runSyncEffect s) = status s"
  by (simp_all add: runSyncEffect_def syncEffect_def Let_def split: option.splits)

lemma runStageEffect_sync_fields [simp]:
  "selectedTray (runStageEffect s) = selectedTray s"
  "loadTriggered (runStageEffect s) = loadTriggered s"
  "initialSyncDone (runStageEffect s) = initialSyncDone s"
  "syncDeps (runStageEffect s) = syncDeps s"
  "status (runStageEffect s) = status s"
  by (simp_all add: runStageEffect_def stageEffect_def Let_def)

lemma status_render [simp]: "status (render st s) = st"
  by (simp add: render_def)

lemma run_Nil: "sectionRun s [] = s"
  by (simp add: sectionRun_def)

lemma run_Cons: "sectionRun s (e # es) = sectionRun (sectionStep s e) es"
  by (simp add: sectionRun_def)

lemma run_append: "sectionRun s (xs @ ys) = sectionRun (sectionRun s xs) ys"
  by (simp add: sectionRun_def)

section \<open>The progress card\<close>















section \<open>Device stage against the user's marker\<close>








section \<open>The initial sync\<close>

lemma render_done:
  assumes "initialSyncDone s"
  shows "selectedTray (render st s) = selectedTray s
         \<and> loadTriggered (render st s) = loadTriggered s
         \<and> initialSyncDone (render st s)"
  using assms by (simp add: render_def runSyncEffect_def syncEffect_def Let_def)

lemma step_done: "initialSyncDone s \<Longrightarrow> initialSyncDone (sectionStep s e)"
  by (cases e)
     (auto simp: render_done handleLoad_def loadMutation_mutate_def handleUnload_def
        unloadMutation_mutate_def slotClick_def handleTraySelect_def Let_def
        loadMutation_onSuccess_def loadMutation_onError_def
        unloadMutation_onSuccess_def unloadMutation_onError_def split: option.splits)

lemma run_done: "initialSyncDone s \<Longrightarrow> initialSyncDone (sectionRun s es)"
proof (induction es arbitrary: s)
  case Nil
  then show ?case by (simp add: run_Nil)
next
  case (Cons e es)
  from Cons.IH [OF step_done [OF Cons.prems]] show ?case by (simp add: run_Cons)
qed

lemma render_sentinel:
  assumes "statusTrayNow st = Some 255 \<or> statusTrayNow st = Some 254"
  shows "selectedTray (render st s) = selectedTray s
         \<and> loadTriggered (render st s) = loadTriggered s"
  using assms by (auto simp: render_def runSyncEffect_def syncEffect_def Let_def)

lemma render_seed:
  assumes "statusTrayNow st = Some t" "t \<noteq> 255" "t \<noteq> 254"
    and "\<not> initialSyncDone s" "syncDeps s \<noteq> Some (Some t)"
  shows "selectedTray (render st s) = Some t \<and> loadTriggered (render st s)
         \<and> initialSyncDone (render st s)"
  using assms by (simp add: render_def runSyncEffect_def syncEffect_def Let_def)

lemma unsynced_render_null:
  "unsynced s \<Longrightarrow> statusTrayNow st = None \<Longrightarrow> unsynced (render st s)"
  by (auto simp: unsynced_def render_def runSyncEffect_def syncEffect_def Let_def)

lemma unsynced_run_null:
  "unsynced s \<Longrightarrow> \<forall>st\<in>set pre. statusTrayNow st = None
   \<Longrightarrow> unsynced (sectionRun s (map StatusUpdate pre))"
  by (induction pre arbitrary: s) (simp_all add: run_Nil run_Cons unsynced_render_null)

lemma unsynced_render_sentinel:
  assumes "unsynced s" "statusTrayNow st = Some 255 \<or> statusTrayNow st = Some 254"
  shows "initialSyncDone (render st s) \<and> selectedTray (render st s) = None
         \<and> \<not> loadTriggered (render st s)"
  using assms
  by (auto simp: unsynced_def render_def runSyncEffect_def syncEffect_def Let_def)

lemma done_run_status:
  "initialSyncDone s \<Longrightarrow>
     initialSyncDone (sectionRun s (map StatusUpdate post))
     \<and> selectedTray (sectionRun s (map StatusUpdate post)) = selectedTray s
     \<and> loadTriggered (sectionRun s (map StatusUpdate post)) = loadTriggered s"
proof (induction post arbitrary: s)
  case Nil
  then show ?case by (simp add: run_Nil)
next
  case (Cons st post)
  from render_done [OF Cons.prems, of st] Cons.IH [of "render st s"]
  show ?case by (simp add: run_Cons)
qed

text \<open>
  Claim C3. A snapshot with \<^verbatim>\<open>tray_now\<close> 255 or 254 leaves the selected tray and the
  load-triggered flag of any section as they are. On a fresh section, after any
  snapshots without a \<^verbatim>\<open>tray_now\<close>, the first snapshot with a valid id \<open>t\<close> selects
  \<open>t\<close> and sets load-triggered. After that, whatever events follow, no later
  snapshot (the same value or another) changes the selected tray or the flag: the
  sync has fired once and does not fire again.
\<close>

theorem initial_sync_seeds_once:
  "(statusTrayNow st = Some 255 \<or> statusTrayNow st = Some 254 \<longrightarrow>
      selectedTray (render st s) = selectedTray s
      \<and> loadTriggered (render st s) = loadTriggered s)
   \<and> ((\<forall>p\<in>set pre. statusTrayNow p = None)
       \<and> statusTrayNow st = Some t \<and> t \<noteq> 255 \<and> t \<noteq> 254
       \<and> s1 = render st (sectionRun (initialSection pid n) (map StatusUpdate pre)) \<longrightarrow>
        selectedTray s1 = Some t
        \<and> loadTriggered s1
        \<and> (\<forall>es st'.
              selectedTray (render st' (sectionRun s1 es)) = selectedTray (sectionRun s1 es)
              \<and> loadTriggered (render st' (sectionRun s1 es))
                  = loadTriggered (sectionRun s1 es)))"
proof (intro conjI impI allI)
  assume "statusTrayNow st = Some 255 \<or> statusTrayNow st = Some 254"
  then show "selectedTray (render st s) = selectedTray s"
    and "loadTriggered (render st s) = loadTriggered s"
    using render_sentinel by blast+
next
  assume h: "(\<forall>p\<in>set pre. statusTrayNow p = None)
       \<and> statusTrayNow st = Some t \<and> t \<noteq> 255 \<and> t \<noteq> 254
       \<and> s1 = render st (sectionRun (initialSection pid n) (map StatusUpdate pre))"
  let ?s0 = "sectionRun (initialSection pid n) (map StatusUpdate pre)"
  have "unsynced (initialSection pid n)"
    by (simp add: unsynced_def initialSection_def)
  then have "unsynced ?s0" using h by (intro unsynced_run_null) simp_all
  then have open_sync: "\<not> initialSyncDone ?s0" "syncDeps ?s0 \<noteq> Some (Some t)"
    by (auto simp: unsynced_def)
  have seed: "selectedTray s1 = Some t \<and> loadTriggered s1 \<and> initialSyncDone s1"
    using h open_sync render_seed [of st t ?s0] by simp
  then show "selectedTray s1 = Some t" and "loadTriggered s1" by simp_all
  fix es st'
  have "initialSyncDone (sectionRun s1 es)"
    using seed by (intro run_done) simp
  then show "selectedTray (render st' (sectionRun s1 es)) = selectedTray (sectionRun s1 es)"
    and "loadTriggered (render st' (sectionRun s1 es)) = loadTriggered (sectionRun s1 es)"
    using render_done by blast+
qed

text \<open>
  \<^verbatim>\<open>tray_now = 255\<close> selects nothing. After a mount without a tray, \<^verbatim>\<open>tray_now = 37\<close>
  selects tray 37 and sets the flag; after the user has clicked slot 1 of unit 9
  (tray 37) to deselect it, a second snapshot with 37 leaves the selection empty.
\<close>

theorem initial_sync_seeds_once_witness:
  "selectedTray (render (traySnapshot 255) (initialSection 1 2)) = None
   \<and> \<not> loadTriggered (render (traySnapshot 255) (initialSection 1 2))
   \<and> selectedTray
        (sectionRun (initialSection 1 2)
           [StatusUpdate (stageSnapshot (- 1)), StatusUpdate (traySnapshot 37)]) = Some 37
   \<and> loadTriggered
        (sectionRun (initialSection 1 2)
           [StatusUpdate (stageSnapshot (- 1)), StatusUpdate (traySnapshot 37)])
   \<and> selectedTray
        (sectionRun (initialSection 1 2)
           [StatusUpdate (stageSnapshot (- 1)), StatusUpdate (traySnapshot 37),
            SlotClick (sampleUnit 9) (plainSpool 1), StatusUpdate (traySnapshot 37)]) = None"
proof -
  let ?s1 = "render (traySnapshot 37)
               (sectionRun (initialSection 1 2) (map StatusUpdate [stageSnapshot (- 1)]))"
  have none: "selectedTray (render (traySnapshot 255) (initialSection 1 2)) = None
              \<and> \<not> loadTriggered (render (traySnapshot 255) (initialSection 1 2))"
    using initial_sync_seeds_once [of "traySnapshot 255" "initialSection 1 2"]
    by (simp add: initialSection_def)
  have pre: "\<forall>p\<in>set [stageSnapshot (- 1)]. statusTrayNow p = None" by simp
  note seeded = initial_sync_seeds_once
                  [of "traySnapshot 37" _ "[stageSnapshot (- 1)]" 37 ?s1 1 2]
  have first: "selectedTray ?s1 = Some 37 \<and> loadTriggered ?s1"
    using seeded pre by simp
  have later: "selectedTray
                 (render (traySnapshot 37)
                    (sectionRun ?s1 [SlotClick (sampleUnit 9) (plainSpool 1)]))
               = selectedTray (sectionRun ?s1 [SlotClick (sampleUnit 9) (plainSpool 1)])"
    using seeded pre by simp
  have click: "selectedTray (sectionRun ?s1 [SlotClick (sampleUnit 9) (plainSpool 1)]) = None"
    using first
    by (simp add: run_Cons run_Nil slotClick_def handleTraySelect_def Let_def isEmpty_def
          isPrinting_def traySnapshot_def globalTrayId_def sampleUnit_def plainSpool_def)
  from none first later click show ?thesis
    by (simp add: run_Cons run_Nil)
qed

section \<open>Routing of units to the two nozzles\<close>

lemma evens_Cons: "evens (x # xs) = x # odds xs"
  by (simp add: evens_def odds_def map_upt_Suc del: upt_Suc)

lemma odds_Cons: "odds (x # xs) = evens xs"
  by (simp add: evens_def odds_def)

lemma filter_index_even:
  "filter_index (\<lambda>_ i. i mod 2 = 0) j xs = (if even j then evens xs else odds xs)"
proof (induction xs arbitrary: j)
  case Nil
  then show ?case by (simp add: evens_def odds_def)
next
  case (Cons x xs)
  then show ?case by (auto simp: evens_Cons odds_Cons)
qed

lemma filter_index_odd:
  "filter_index (\<lambda>_ i. i mod 2 = 1) j xs = (if even j then odds xs else evens xs)"
proof (induction xs arbitrary: j)
  case Nil
  then show ?case by (simp add: evens_def odds_def)
next
  case (Cons x xs)
  then show ?case by (auto simp: evens_Cons odds_Cons simp flip: odd_iff_mod_2_eq_one)
qed

lemma String_digits:
  "String 0 = ''0''" "String 1 = ''1''" "String 5 = ''5''" "String 128 = ''128''"
  by (simp_all add: String_def string_of_nat.simps digit_char_def)

lemma routedSection_fields [simp]:
  "amsUnits (status (routedSection m)) = [sampleUnit 0, sampleUnit 1, sampleUnit 128]"
  "amsExtruderMap (status (routedSection m)) = m"
  "isDualNozzle (routedSection m)"
  "\<not> isDualNozzle ((routedSection m)\<lparr>nozzleCount := 1\<rparr>)"
  "status ((routedSection m)\<lparr>nozzleCount := 1\<rparr>) = status (routedSection m)"
  by (simp_all add: routedSection_def amsUnits_def amsExtruderMap_def isDualNozzle_def
        initialSection_def)

lemma sampleUnit_id [simp]: "id_ams (sampleUnit i) = i"
  by (simp add: sampleUnit_def)

lemma sampleUnit_eq [simp]: "sampleUnit i = sampleUnit j \<longleftrightarrow> i = j"
  by (auto simp: sampleUnit_def)

text \<open>
  Claim C4. On a machine with two nozzles and a non-empty assignment map, the left
  group holds exactly the units of the snapshot whose id maps to 1, the right group
  exactly those whose id maps to 0, and a unit whose id is not in the map is in
  neither. With an empty map the right group is the units at the even positions of
  the snapshot, in order, and the left group those at the odd positions. On a machine
  with one nozzle all units are in the left group and the right group is empty.
\<close>

theorem units_routed_by_map_or_parity:
  "(isDualNozzle s \<and> amsExtruderMap (status s) \<noteq> [] \<longrightarrow>
      (\<forall>u. u \<in> set (leftUnits s) \<longleftrightarrow>
            u \<in> set (amsUnits (status s))
            \<and> map_of (amsExtruderMap (status s)) (String (id_ams u)) = Some 1)
      \<and> (\<forall>u. u \<in> set (rightUnits s) \<longleftrightarrow>
            u \<in> set (amsUnits (status s))
            \<and> map_of (amsExtruderMap (status s)) (String (id_ams u)) = Some 0)
      \<and> (\<forall>u. map_of (amsExtruderMap (status s)) (String (id_ams u)) = None \<longrightarrow>
            u \<notin> set (leftUnits s) \<and> u \<notin> set (rightUnits s)))
   \<and> (isDualNozzle s \<and> amsExtruderMap (status s) = [] \<longrightarrow>
        rightUnits s
          = map (\<lambda>k. amsUnits (status s) ! (2 * k)) [0..<(length (amsUnits (status s)) + 1) div 2]
        \<and> leftUnits s
          = map (\<lambda>k. amsUnits (status s) ! (2 * k + 1)) [0..<length (amsUnits (status s)) div 2])
   \<and> (\<not> isDualNozzle s \<longrightarrow> leftUnits s = amsUnits (status s) \<and> rightUnits s = [])"
proof (intro conjI impI)
  assume h: "isDualNozzle s \<and> amsExtruderMap (status s) \<noteq> []"
  then show "\<forall>u. u \<in> set (leftUnits s) \<longleftrightarrow>
            u \<in> set (amsUnits (status s))
            \<and> map_of (amsExtruderMap (status s)) (String (id_ams u)) = Some 1"
    by (simp add: leftUnits_def Object_keys_def)
  from h show "\<forall>u. u \<in> set (rightUnits s) \<longleftrightarrow>
            u \<in> set (amsUnits (status s))
            \<and> map_of (amsExtruderMap (status s)) (String (id_ams u)) = Some 0"
    by (simp add: rightUnits_def Object_keys_def)
  from h show "\<forall>u. map_of (amsExtruderMap (status s)) (String (id_ams u)) = None \<longrightarrow>
            u \<notin> set (leftUnits s) \<and> u \<notin> set (rightUnits s)"
    by (simp add: leftUnits_def rightUnits_def Object_keys_def)
next
  assume h: "isDualNozzle s \<and> amsExtruderMap (status s) = []"
  then show "rightUnits s
          = map (\<lambda>k. amsUnits (status s) ! (2 * k)) [0..<(length (amsUnits (status s)) + 1) div 2]"
    by (simp add: rightUnits_def Object_keys_def filter_index_even evens_def)
  from h show "leftUnits s
          = map (\<lambda>k. amsUnits (status s) ! (2 * k + 1)) [0..<length (amsUnits (status s)) div 2]"
    unfolding leftUnits_def Object_keys_def filter_index_odd odds_def by simp
next
  assume "\<not> isDualNozzle s"
  then show "leftUnits s = amsUnits (status s)" and "rightUnits s = []"
    by (simp_all add: leftUnits_def rightUnits_def)
qed

text \<open>
  Units 0, 1 and 128 with the map \<^verbatim>\<open>{"0": 0, "1": 1}\<close>: unit 1 is left, unit 0 is
  right, unit 128 is in neither group. With the empty map units 0 and 128 are right
  and unit 1 is left. With one nozzle all three are left.
\<close>

theorem units_routed_by_map_or_parity_witness:
  "sampleUnit 1 \<in> set (leftUnits (routedSection [(''0'', 0), (''1'', 1)]))
   \<and> sampleUnit 0 \<in> set (rightUnits (routedSection [(''0'', 0), (''1'', 1)]))
   \<and> sampleUnit 128 \<notin> set (leftUnits (routedSection [(''0'', 0), (''1'', 1)]))
   \<and> sampleUnit 128 \<notin> set (rightUnits (routedSection [(''0'', 0), (''1'', 1)]))
   \<and> rightUnits (routedSection []) = [sampleUnit 0, sampleUnit 128]
   \<and> leftUnits (routedSection []) = [sampleUnit 1]
   \<and> leftUnits ((routedSection [])\<lparr>nozzleCount := 1\<rparr>)
       = [sampleUnit 0, sampleUnit 1, sampleUnit 128]
   \<and> rightUnits ((routedSection [])\<lparr>nozzleCount := 1\<rparr>) = []"
proof -
  note mapped = units_routed_by_map_or_parity [of "routedSection [(''0'', 0), (''1'', 1)]"]
  have m: "sampleUnit 1 \<in> set (leftUnits (routedSection [(''0'', 0), (''1'', 1)]))
     \<and> sampleUnit 0 \<in> set (rightUnits (routedSection [(''0'', 0), (''1'', 1)]))
     \<and> sampleUnit 128 \<notin> set (leftUnits (routedSection [(''0'', 0), (''1'', 1)]))
     \<and> sampleUnit 128 \<notin> set (rightUnits (routedSection [(''0'', 0), (''1'', 1)]))"
    using mapped by (simp add: String_digits)
  have upt2: "[0..<2] = [0, Suc 0]" by (simp add: upt_conv_Cons)
  have p: "rightUnits (routedSection []) = [sampleUnit 0, sampleUnit 128]
     \<and> leftUnits (routedSection []) = [sampleUnit 1]"
    using units_routed_by_map_or_parity [of "routedSection []"] by (simp add: upt2)
  have o: "leftUnits ((routedSection [])\<lparr>nozzleCount := 1\<rparr>)
      = [sampleUnit 0, sampleUnit 1, sampleUnit 128]
     \<and> rightUnits ((routedSection [])\<lparr>nozzleCount := 1\<rparr>) = []"
    using units_routed_by_map_or_parity [of "(routedSection [])\<lparr>nozzleCount := 1\<rparr>"] by simp
  from m p o show ?thesis by blast
qed

section \<open>Global tray ids\<close>

lemma findTrayUnit_round_trip:
  assumes "distinct (map id_ams units)" "unit \<in> set units" "0 \<le> slot"
    and "slot < (if id_ams unit \<ge> 128 then 2 else 4)"
  shows "findTrayUnit (id_ams unit * 4 + slot) units = Some (unit, slot)"
  using assms
proof (induction units)
  case Nil
  then show ?case by simp
next
  case (Cons u us)
  show ?case
  proof (cases "u = unit")
    case True
    with Cons.prems show ?thesis by (simp add: Let_def)
  next
    case False
    with Cons.prems have in_rest: "unit \<in> set us" and ne: "id_ams u \<noteq> id_ams unit"
      by auto
    have slot4: "slot < 4" using Cons.prems(4) by (simp split: if_splits)
    have miss: "\<not> (id_ams unit * 4 + slot \<ge> id_ams u * 4
                 \<and> id_ams unit * 4 + slot < id_ams u * 4 + (if id_ams u \<ge> 128 then 2 else 4))"
      using ne slot4 Cons.prems(3) by (auto split: if_splits)
    have skip: "findTrayUnit (id_ams unit * 4 + slot) (u # us)
                = findTrayUnit (id_ams unit * 4 + slot) us"
      using miss by (auto simp: Let_def)
    have "findTrayUnit (id_ams unit * 4 + slot) us = Some (unit, slot)"
      using Cons.IH Cons.prems in_rest by simp
    with skip show ?thesis by simp
  qed
qed

text \<open>
  Claim C5. When the ids of the units are unique, every unit of the collection and
  every slot index valid for it (below 2 for an HT unit, below 4 otherwise) round-trip:
  the search for \<^verbatim>\<open>unit.id * 4 + slot\<close> returns that unit and that slot index. So
  \<^verbatim>\<open>getExtruderIdForTray\<close> on a machine with two nozzles returns the map entry of
  that unit, and \<^verbatim>\<open>getLoadedTrayInfo\<close>, when that id is the loaded tray and is not
  one of the values 254 and 255, reports that slot index on the side of the unit
  whenever the unit is the one on display there.
\<close>

theorem global_tray_id_round_trip:
  assumes "distinct (map id_ams units)"
    and "unit \<in> set units"
    and "0 \<le> slot"
    and "slot < (if isAmsHT (id_ams unit) then 2 else 4)"
  shows "findTrayUnit (id_ams unit * 4 + slot) units = Some (unit, slot)
         \<and> (isDualNozzle s \<and> amsUnits (status s) = units \<longrightarrow>
              getExtruderIdForTray s (id_ams unit * 4 + slot)
                = map_of (amsExtruderMap (status s)) (String (id_ams unit)))
         \<and> (amsUnits (status s) = units
             \<and> statusTrayNow (status s) = Some (id_ams unit * 4 + slot)
             \<and> id_ams unit * 4 + slot \<noteq> 255 \<and> id_ams unit * 4 + slot \<noteq> 254 \<longrightarrow>
              (map_of (amsExtruderMap (status s)) (String (id_ams unit)) = Some 1
               \<and> map_option id_ams (at_index (leftUnits s) (leftAmsIndex s)) = Some (id_ams unit)
               \<longrightarrow> leftActiveSlot (getLoadedTrayInfo s) = Some slot
                   \<and> rightActiveSlot (getLoadedTrayInfo s) = None)
              \<and> (map_of (amsExtruderMap (status s)) (String (id_ams unit)) \<noteq> Some 1
                 \<and> map_option id_ams (at_index (rightUnits s) (rightAmsIndex s))
                     = Some (id_ams unit)
                 \<longrightarrow> rightActiveSlot (getLoadedTrayInfo s) = Some slot
                     \<and> leftActiveSlot (getLoadedTrayInfo s) = None))"
proof -
  have found: "findTrayUnit (id_ams unit * 4 + slot) units = Some (unit, slot)"
    using assms by (intro findTrayUnit_round_trip) (simp_all add: isAmsHT_def)
  then show ?thesis
    by (simp add: getExtruderIdForTray_def getLoadedTrayInfo_def Let_def)
qed

text \<open>
  Slot 1 of the HT unit 128, behind the units 0 and 1, with the map
  \<^verbatim>\<open>{"0": 0, "1": 1, "128": 1}\<close>: the global id 513 leads back to unit 128 and slot 1,
  to the extruder 1, and to the active slot 1 on the left side.
\<close>

theorem global_tray_id_round_trip_witness:
  "findTrayUnit 513 [sampleUnit 0, sampleUnit 1, sampleUnit 128] = Some (sampleUnit 128, 1)
   \<and> getExtruderIdForTray (loadedSection [(''0'', 0), (''1'', 1), (''128'', 1)] 513) 513 = Some 1
   \<and> leftActiveSlot (getLoadedTrayInfo (loadedSection [(''0'', 0), (''1'', 1), (''128'', 1)] 513))
       = Some 1"
proof -
  let ?s = "loadedSection [(''0'', 0), (''1'', 1), (''128'', 1)] 513"
  have "distinct (map id_ams [sampleUnit 0, sampleUnit 1, sampleUnit 128])"
    and "sampleUnit 128 \<in> set [sampleUnit 0, sampleUnit 1, sampleUnit 128]"
    and "(0::int) \<le> 1"
    and "(1::int) < (if isAmsHT (id_ams (sampleUnit 128)) then 2 else 4)"
    by (simp_all add: isAmsHT_def)
  note trip = global_tray_id_round_trip [OF this, of ?s]
  have fields: "isDualNozzle ?s"
    "amsUnits (status ?s) = [sampleUnit 0, sampleUnit 1, sampleUnit 128]"
    "amsExtruderMap (status ?s) = [(''0'', 0), (''1'', 1), (''128'', 1)]"
    "statusTrayNow (status ?s) = Some 513" "leftAmsIndex ?s = 1"
    by (simp_all add: loadedSection_def initialSection_def isDualNozzle_def amsUnits_def
          amsExtruderMap_def statusTrayNow_def)
  have left: "leftUnits ?s = [sampleUnit 1, sampleUnit 128]"
    by (simp add: leftUnits_def fields Object_keys_def String_digits)
  from trip fields left show ?thesis
    by (simp add: String_digits at_index_def)
qed

text \<open>
  The ids 254 and 255 are read as "external spool" and "none" before the search runs:
  slot 3 of a unit 63 has the global id 255 and is never reported as loaded.
\<close>

lemma tray_255_reads_as_none:
  "getLoadedTrayInfo
     ((initialSection 1 1)
        \<lparr>status := Some \<lparr> connected = True, state = ''IDLE'', stg_cur = None,
                           tray_now = Some (63 * 4 + 3), ams = Some [sampleUnit 63],
                           ams_extruder_map = None \<rparr>\<rparr>) = noLoadedTray"
  by (simp add: getLoadedTrayInfo_def statusTrayNow_def Let_def)

section \<open>The confirmation round trip\<close>

lemma move_round_trip:
  assumes "\<not> isDisabled_JogPad p"
    and "q = moveSettled (Some (ConfirmationRequired T W)) (handleMove axis d p)"
  shows "sent q = sent p @ [moveAxis (printerId p) axis d 3000 None]
    \<and> map_option warning (confirmModal q) = Some W
    \<and> sent (handleConfirm_JogPad q) = sent q @ [moveAxis (printerId p) axis d 3000 (Some T)]
    \<and> confirmModal (handleConfirm_JogPad q) = None
    \<and> sent (onCancel q) = sent q
    \<and> confirmModal (onCancel q) = None
    \<and> homeMutation (onCancel q) = None \<and> moveMutation (onCancel q) = None"
proof -
  have idle: "homeMutation p = None" "moveMutation p = None"
    using assms(1) unfolding isDisabled_JogPad_def Let_def by blast+
  show ?thesis
    using assms idle
    by (simp add: handleMove_def moveMutation_mutate_def moveSettled_def
        moveMutation_onSuccess_def isConfirmationRequired_def handleConfirm_JogPad_def
          onCancel_def Let_def)
qed

lemma home_round_trip:
  assumes "\<not> isDisabled_JogPad p"
    and "q = homeSettled (Some (ConfirmationRequired T W)) (handleHome p)"
  shows "sent q = sent p @ [homeAxes (printerId p) ''XY'' None]
    \<and> map_option warning (confirmModal q) = Some W
    \<and> sent (handleConfirm_JogPad q) = sent q @ [homeAxes (printerId p) ''XY'' (Some T)]
    \<and> confirmModal (handleConfirm_JogPad q) = None
    \<and> sent (onCancel q) = sent q
    \<and> confirmModal (onCancel q) = None
    \<and> homeMutation (onCancel q) = None \<and> moveMutation (onCancel q) = None"
proof -
  have idle: "homeMutation p = None" "moveMutation p = None"
    using assms(1) unfolding isDisabled_JogPad_def Let_def by blast+
  show ?thesis
    using assms idle
    by (simp add: handleHome_def homeMutation_mutate_def homeSettled_def
        homeMutation_onSuccess_def isConfirmationRequired_def handleConfirm_JogPad_def
          onCancel_def Let_def)
qed

lemma extrude_round_trip:
  assumes "q = extrudeSettled (Some (ConfirmationRequired T W)) (handleExtrude d p)"
  shows "sent q = sent p @ [sendGcode (printerId p) (extrudeGcode d) None]
    \<and> map_option warning (confirmModal q) = Some W
    \<and> sent (handleConfirm_Extruder q)
        = sent q @ [sendGcode (printerId p) (extrudeGcode d) (Some T)]
    \<and> confirmModal (handleConfirm_Extruder q) = None
    \<and> sent (onCancel q) = sent q
    \<and> confirmModal (onCancel q) = None
    \<and> extrudeMutation (onCancel q) = None"
  using assms
  by (simp add: handleExtrude_def extrudeMutation_mutate_def extrudeSettled_def
        extrudeMutation_onSuccess_def isConfirmationRequired_def handleConfirm_Extruder_def
        onCancel_def)

lemma bed_round_trip:
  assumes "q = bedMoveSettled (Some (ConfirmationRequired T W)) (handleMove_Bed d p)"
  shows "sent q = sent p @ [moveAxis (printerId p) ''Z'' d 1000 None]
    \<and> map_option warning (confirmModal q) = Some W
    \<and> sent (handleConfirm_Bed q) = sent q @ [moveAxis (printerId p) ''Z'' d 1000 (Some T)]
    \<and> confirmModal (handleConfirm_Bed q) = None
    \<and> sent (onCancel q) = sent q
    \<and> confirmModal (onCancel q) = None
    \<and> moveMutation_Bed (onCancel q) = None"
  using assms
  by (simp add: handleMove_Bed_def moveMutation_Bed_mutate_def bedMoveSettled_def
        moveMutation_Bed_onSuccess_def isConfirmationRequired_def handleConfirm_Bed_def
        onCancel_def)

text \<open>
  Claim C6. For each gated command (a move or a home on the jog pad when its controls
  are enabled, an extrusion, a bed move) whose first response is confirmation-required
  with token \<open>T\<close> and warning \<open>W\<close>: the prompt shows \<open>W\<close>; approving sends one
  more request, the same command with the same axis, distance, feed rate or G-code
  text and with the token \<open>T\<close>, and closes the prompt; cancelling sends nothing,
  closes the prompt and leaves no request in flight.
\<close>

theorem confirmation_round_trip:
  assumes "\<not> isDisabled_JogPad j"
    and "jm = moveSettled (Some (ConfirmationRequired T W)) (handleMove axis d j)"
    and "jh = homeSettled (Some (ConfirmationRequired T W)) (handleHome j)"
    and "ex = extrudeSettled (Some (ConfirmationRequired T W)) (handleExtrude de x)"
    and "bd = bedMoveSettled (Some (ConfirmationRequired T W)) (handleMove_Bed dz b)"
  shows "sent jm = sent j @ [moveAxis (printerId j) axis d 3000 None]
    \<and> map_option warning (confirmModal jm) = Some W
    \<and> sent (handleConfirm_JogPad jm) = sent jm @ [moveAxis (printerId j) axis d 3000 (Some T)]
    \<and> confirmModal (handleConfirm_JogPad jm) = None
    \<and> sent (onCancel jm) = sent jm \<and> confirmModal (onCancel jm) = None
    \<and> homeMutation (onCancel jm) = None \<and> moveMutation (onCancel jm) = None
    \<and> sent jh = sent j @ [homeAxes (printerId j) ''XY'' None]
    \<and> map_option warning (confirmModal jh) = Some W
    \<and> sent (handleConfirm_JogPad jh) = sent jh @ [homeAxes (printerId j) ''XY'' (Some T)]
    \<and> confirmModal (handleConfirm_JogPad jh) = None
    \<and> sent (onCancel jh) = sent jh \<and> confirmModal (onCancel jh) = None
    \<and> homeMutation (onCancel jh) = None \<and> moveMutation (onCancel jh) = None
    \<and> sent ex = sent x @ [sendGcode (printerId x) (extrudeGcode de) None]
    \<and> map_option warning (confirmModal ex) = Some W
    \<and> sent (handleConfirm_Extruder ex)
        = sent ex @ [sendGcode (printerId x) (extrudeGcode de) (Some T)]
    \<and> confirmModal (handleConfirm_Extruder ex) = None
    \<and> sent (onCancel ex) = sent ex \<and> confirmModal (onCancel ex) = None
    \<and> extrudeMutation (onCancel ex) = None
    \<and> sent bd = sent b @ [moveAxis (printerId b) ''Z'' dz 1000 None]
    \<and> map_option warning (confirmModal bd) = Some W
    \<and> sent (handleConfirm_Bed bd) = sent bd @ [moveAxis (printerId b) ''Z'' dz 1000 (Some T)]
    \<and> confirmModal (handleConfirm_Bed bd) = None
    \<and> sent (onCancel bd) = sent bd \<and> confirmModal (onCancel bd) = None
    \<and> moveMutation_Bed (onCancel bd) = None"
  using move_round_trip [OF assms(1,2)] home_round_trip [OF assms(1,3)]
    extrude_round_trip [OF assms(4)] bed_round_trip [OF assms(5)]
  by blast

text \<open>
  A connected printer 7: \<^verbatim>\<open>X+10\<close> on the pad answered by the token \<^verbatim>\<open>T\<close>; approval
  sends the same move with the token, and cancelling leaves the single request.
\<close>

theorem confirmation_round_trip_witness:
  "sent (handleConfirm_JogPad
           (moveSettled (Some (ConfirmationRequired ''T'' ''W''))
              (handleMove ''X'' 10 (initialJogPad 7 (stageSnapshot (- 1)) False))))
     = [moveAxis 7 ''X'' 10 3000 None, moveAxis 7 ''X'' 10 3000 (Some ''T'')]
   \<and> sent (onCancel
           (moveSettled (Some (ConfirmationRequired ''T'' ''W''))
              (handleMove ''X'' 10 (initialJogPad 7 (stageSnapshot (- 1)) False))))
     = [moveAxis 7 ''X'' 10 3000 None]
   \<and> confirmModal (onCancel
           (moveSettled (Some (ConfirmationRequired ''T'' ''W''))
              (handleMove ''X'' 10 (initialJogPad 7 (stageSnapshot (- 1)) False)))) = None
   \<and> sent (handleConfirm_Extruder
           (extrudeSettled (Some (ConfirmationRequired ''T'' ''W''))
              (handleExtrude 5 (initialExtruderControls 7 (stageSnapshot (- 1)) False))))
     = [sendGcode 7 (extrudeGcode 5) None, sendGcode 7 (extrudeGcode 5) (Some ''T'')]"
proof -
  let ?j = "initialJogPad 7 (stageSnapshot (- 1)) False"
  let ?x = "initialExtruderControls 7 (stageSnapshot (- 1)) False"
  let ?b = "initialBedControls 7 (stageSnapshot (- 1)) False"
  have enabled: "\<not> isDisabled_JogPad ?j"
    by (simp add: isDisabled_JogPad_def panelConnected_def initialJogPad_def isConnected_def
          stageSnapshot_def)
  have start: "sent ?j = []" "printerId ?j = 7" "sent ?x = []" "printerId ?x = 7"
    by (simp_all add: initialJogPad_def initialExtruderControls_def)
  note trip = confirmation_round_trip
                [where j = ?j and x = ?x and b = ?b and T = "''T''" and W = "''W''"
                   and axis = "''X''" and d = 10 and de = 5 and dz = 1,
                 OF enabled refl refl refl refl]
  from trip start show ?thesis by simp
qed

section \<open>The extrusion command text\<close>

lemma split_lines_no_newline: "newline \<notin> set s \<Longrightarrow> split_lines s = [s]"
  by (induction s) auto

lemma split_lines_append:
  "newline \<notin> set a \<Longrightarrow> split_lines (a @ newline # rest) = a # split_lines rest"
  by (induction a) auto

lemma digit_char_not_newline: "d < 10 \<Longrightarrow> digit_char d \<noteq> newline"
proof -
  assume "d < 10"
  then have "digit_char d \<in> set ''0123456789''"
    unfolding digit_char_def by (intro nth_mem) simp
  moreover have "newline \<notin> set ''0123456789''" by (simp add: newline_def)
  ultimately show ?thesis by metis
qed

lemma string_of_nat_no_newline: "newline \<notin> set (string_of_nat n)"
proof (induction n rule: string_of_nat.induct)
  case (1 n)
  show ?case
  proof (cases "n < 10")
    case True
    then show ?thesis
      using digit_char_not_newline [of n] by (subst string_of_nat.simps) auto
  next
    case False
    have "n mod 10 < 10" by simp
    with 1 False digit_char_not_newline [of "n mod 10"] show ?thesis
      by (subst string_of_nat.simps) auto
  qed
qed

lemma String_no_newline: "newline \<notin> set (String d)"
  by (simp add: String_def string_of_nat_no_newline) (simp add: newline_def)

text \<open>
  Claim C7. For every distance \<open>d\<close> the command text that \<^verbatim>\<open>handleExtrude\<close> sends has
  exactly three lines: \<^verbatim>\<open>G91\<close> (relative mode), one move \<^verbatim>\<open>G1 E<d> F300\<close> of \<open>d\<close>
  units at feed rate 300 with \<open>d\<close> as its decimal numeral, and \<^verbatim>\<open>G90\<close> (back to
  absolute mode). For \<open>d = 5\<close> the text is \<^verbatim>\<open>G91\<close>, \<^verbatim>\<open>G1 E5 F300\<close>, \<^verbatim>\<open>G90\<close>.
\<close>

theorem extrude_command_three_lines:
  "split_lines (extrudeGcode d) = [''G91'', ''G1 E'' @ String d @ '' F300'', ''G90'']
   \<and> sent (handleExtrude d p) = sent p @ [sendGcode (printerId p) (extrudeGcode d) None]
   \<and> extrudeGcode 5 = ''G91'' @ [newline] @ ''G1 E5 F300'' @ [newline] @ ''G90''
   \<and> split_lines (extrudeGcode 5) = [''G91'', ''G1 E5 F300'', ''G90'']"
proof -
  have a: "newline \<notin> set ''G91''" and c: "newline \<notin> set ''G90''"
    by (simp_all add: newline_def)
  have b: "newline \<notin> set (''G1 E'' @ String d @ '' F300'')" for d
    using String_no_newline [of d] by (simp add: newline_def)
  have lines: "split_lines (extrudeGcode d) = [''G91'', ''G1 E'' @ String d @ '' F300'', ''G90'']"
    for d
  proof -
    have "split_lines (extrudeGcode d)
        = split_lines (''G91'' @ newline # ((''G1 E'' @ String d @ '' F300'') @ newline # ''G90''))"
      by (simp add: extrudeGcode_def)
    also have "\<dots> = ''G91'' # split_lines ((''G1 E'' @ String d @ '' F300'') @ newline # ''G90'')"
      using a by (rule split_lines_append)
    also have "\<dots> = ''G91'' # (''G1 E'' @ String d @ '' F300'') # split_lines ''G90''"
      using split_lines_append [OF b] by simp
    also have "\<dots> = [''G91'', ''G1 E'' @ String d @ '' F300'', ''G90'']"
      using split_lines_no_newline [OF c] by simp
    finally show ?thesis .
  qed
  have five: "extrudeGcode 5 = ''G91'' @ [newline] @ ''G1 E5 F300'' @ [newline] @ ''G90''"
    by (simp add: extrudeGcode_def String_digits)
  have "sent (handleExtrude d p) = sent p @ [sendGcode (printerId p) (extrudeGcode d) None]"
    by (simp add: handleExtrude_def extrudeMutation_mutate_def)
  with lines [of d] lines [of 5] five show ?thesis by (simp add: String_digits)
qed

text \<open>The Retract button: distance -5 on printer 7.\<close>

theorem extrude_command_three_lines_witness:
  "split_lines (extrudeGcode (- 5)) = [''G91'', ''G1 E-5 F300'', ''G90'']
   \<and> sent (handleExtrude (- 5) (initialExtruderControls 7 (stageSnapshot (- 1)) False))
       = [sendGcode 7 (extrudeGcode (- 5)) None]"
proof -
  have neg: "String (- 5) = ''-5''"
    by (simp add: String_def string_of_nat.simps digit_char_def)
  from extrude_command_three_lines
         [of "- 5" "initialExtruderControls 7 (stageSnapshot (- 1)) False"]
  show ?thesis by (simp add: neg initialExtruderControls_def)
qed

section \<open>Fallback rendering of missing telemetry\<close>

lemma hexToRgb_partly_hexadecimal: "hexToRgb (Some ''red'') = ''rgb(128, 13, 128)''"
  by (simp add: hexToRgb_def substring_def parseInt16_def isWhiteSpace_def hexDigit_def
        or_default_def Let_def String_def string_of_nat.simps digit_char_def)

text \<open>
  Claim C8, as stated, fails. An empty slot has no unique id and a negative remaining
  quantity, and its fill bar is hidden, but no full colour background takes its place:
  the only layer drawn is the striped pattern.
\<close>

theorem fallback_rendering_counterexample:
  "tray_uuid emptySlot = None \<and> remain emptySlot < 0 \<and> slotLayers emptySlot = [Striped]"
  by (simp add: emptySlot_def slotLayers_def isEmpty_def truthy_def)

text \<open>
  Claim C8, amended. The rendering functions are total functions of the telemetry. A
  null or empty colour renders as \<^verbatim>\<open>rgb(128, 128, 128)\<close>, and so does a colour none of
  whose three two-character channel fields parses as a hexadecimal number. A tray with
  a null or empty unique id or a negative remaining quantity has no fill bar; when the
  tray is not empty the full colour background is drawn instead, and when it is empty
  the striped pattern is.
\<close>

theorem fallback_rendering:
  "hexToRgb None = ''rgb(128, 128, 128)''
   \<and> hexToRgb (Some []) = ''rgb(128, 128, 128)''
   \<and> (parseInt16 (substring (substring (replace_first CHR ''#'' h) 0 6) 0 2) = None
       \<and> parseInt16 (substring (substring (replace_first CHR ''#'' h) 0 6) 2 4) = None
       \<and> parseInt16 (substring (substring (replace_first CHR ''#'' h) 0 6) 4 6) = None \<longrightarrow>
      hexToRgb (Some h) = ''rgb(128, 128, 128)'')
   \<and> (\<not> truthy (tray_uuid t) \<or> remain t < 0 \<longrightarrow>
        (\<forall>l \<in> set (slotLayers t). \<not> isFillLevel l)
        \<and> (\<not> isEmpty t \<longrightarrow> slotLayers t = [FullColor (hexToRgb (tray_color t))])
        \<and> (isEmpty t \<longrightarrow> slotLayers t = [Striped]))"
  by (auto simp: hexToRgb_def or_default_def Let_def String_digits slotLayers_def
        isFillLevel_def)

text \<open>
  The colour \<^verbatim>\<open>#zzzzzz\<close> is gray, and a third-party spool without a unique id is drawn
  as a full background in its own colour.
\<close>

theorem fallback_rendering_witness:
  "hexToRgb (Some ''#zzzzzz'') = ''rgb(128, 128, 128)''
   \<and> slotLayers (plainSpool 0) = [FullColor ''rgb(255, 128, 64)'']"
proof -
  have nan: "parseInt16 ''zz'' = None"
    by (simp add: parseInt16_def isWhiteSpace_def hexDigit_def Let_def)
  have colour: "hexToRgb (tray_color (plainSpool 0)) = ''rgb(255, 128, 64)''"
    by (simp add: plainSpool_def hexToRgb_def substring_def parseInt16_def isWhiteSpace_def
          hexDigit_def or_default_def Let_def String_def string_of_nat.simps digit_char_def)
  have spool: "\<not> truthy (tray_uuid (plainSpool 0))" "\<not> isEmpty (plainSpool 0)"
    by (simp_all add: plainSpool_def truthy_def isEmpty_def)
  from fallback_rendering [of "''#zzzzzz''" "plainSpool 0"] nan colour spool
  show ?thesis by (simp add: substring_def)
qed

section \<open>The sync opportunity is spent by a sentinel\<close>

text \<open>
  Claim C9. On a fresh section, after any snapshots whose \<^verbatim>\<open>tray_now\<close> is null, the
  first snapshot with a non-null \<^verbatim>\<open>tray_now\<close> spends the sync even when the value is
  the sentinel 254 or 255. Whatever snapshots follow, with valid tray ids or not,
  nothing is selected and load-triggered stays false; and after any further events no
  snapshot changes the selected tray or the flag.
\<close>

theorem sentinel_spends_initial_sync:
  assumes "\<forall>st\<in>set pre. statusTrayNow st = None"
    and "statusTrayNow sen = Some 255 \<or> statusTrayNow sen = Some 254"
    and "s1 = sectionRun (initialSection pid n) (map StatusUpdate (pre @ [sen]))"
  shows "initialSyncDone s1
         \<and> selectedTray (sectionRun s1 (map StatusUpdate post)) = None
         \<and> \<not> loadTriggered (sectionRun s1 (map StatusUpdate post))
         \<and> selectedTray (render st' (sectionRun s1 es)) = selectedTray (sectionRun s1 es)
         \<and> loadTriggered (render st' (sectionRun s1 es)) = loadTriggered (sectionRun s1 es)"
proof -
  let ?s0 = "sectionRun (initialSection pid n) (map StatusUpdate pre)"
  have "unsynced (initialSection pid n)"
    by (simp add: unsynced_def initialSection_def)
  then have u: "unsynced ?s0" using assms(1) by (rule unsynced_run_null)
  have e1: "s1 = render sen ?s0"
    by (simp add: assms(3) run_append run_Cons run_Nil)
  have spent: "initialSyncDone s1 \<and> selectedTray s1 = None \<and> \<not> loadTriggered s1"
    unfolding e1 using u assms(2) by (rule unsynced_render_sentinel)
  have later: "initialSyncDone (sectionRun s1 es)"
    using spent by (intro run_done) simp
  from spent done_run_status [of s1 post] render_done [OF later, of st']
  show ?thesis by simp
qed

text \<open>
  A mount without a tray, then \<^verbatim>\<open>tray_now = 255\<close>, then \<^verbatim>\<open>tray_now = 37\<close>: tray 37 is
  never selected.
\<close>

theorem sentinel_spends_initial_sync_witness:
  "selectedTray
     (sectionRun (initialSection 1 2)
        (map StatusUpdate [stageSnapshot (- 1), traySnapshot 255, traySnapshot 37])) = None
   \<and> \<not> loadTriggered
        (sectionRun (initialSection 1 2)
           (map StatusUpdate [stageSnapshot (- 1), traySnapshot 255, traySnapshot 37]))"
proof -
  have pre: "\<forall>st\<in>set [stageSnapshot (- 1)]. statusTrayNow st = None" by simp
  have sen: "statusTrayNow (traySnapshot 255) = Some 255
             \<or> statusTrayNow (traySnapshot 255) = Some 254" by simp
  from sentinel_spends_initial_sync [OF pre sen refl, of 1 2 "[traySnapshot 37]"]
  show ?thesis by (simp add: run_append run_Cons run_Nil)
qed

section \<open>Clicking a slot\<close>

text \<open>
  Claim C10. A click on a slot changes the selected tray exactly when the slot is not
  empty (its type is neither missing, nor empty, nor \<^verbatim>\<open>NONE\<close>) and the printer is not
  printing; it then selects the slot's global id, or deselects when that id was
  the selection. Whenever the click changes the selection, to a tray or to none, the
  load-triggered flag is false afterwards; when it does not, the state is untouched.
  The same holds for \<^verbatim>\<open>handleTraySelect\<close> with any argument.
\<close>

theorem slot_click_toggles_selection:
  "(selectedTray (slotClick u t s) \<noteq> selectedTray s \<longleftrightarrow> \<not> isEmpty t \<and> \<not> isPrinting (status s))
   \<and> (\<not> isEmpty t \<and> \<not> isPrinting (status s) \<longrightarrow>
        selectedTray (slotClick u t s)
          = (if selectedTray s = Some (globalTrayId u t) then None else Some (globalTrayId u t)))
   \<and> (selectedTray (slotClick u t s) \<noteq> selectedTray s \<longrightarrow> \<not> loadTriggered (slotClick u t s))
   \<and> (selectedTray (slotClick u t s) = selectedTray s \<longrightarrow> slotClick u t s = s)
   \<and> selectedTray (handleTraySelect x s) = x
   \<and> (x \<noteq> selectedTray s \<longrightarrow> \<not> loadTriggered (handleTraySelect x s))
   \<and> (x = selectedTray s \<longrightarrow> handleTraySelect x s = s)"
proof -
  have select: "selectedTray (handleTraySelect y s) = y"
    and changed: "y \<noteq> selectedTray s \<Longrightarrow> \<not> loadTriggered (handleTraySelect y s)"
    and same: "y = selectedTray s \<Longrightarrow> handleTraySelect y s = s" for y
    by (simp_all add: handleTraySelect_def Let_def)
  show ?thesis
  proof (cases "\<not> isEmpty t \<and> \<not> isPrinting (status s)")
    case True
    let ?target = "if selectedTray s = Some (globalTrayId u t) then None
                   else Some (globalTrayId u t)"
    have click: "slotClick u t s = handleTraySelect ?target s"
      using True by (simp add: slotClick_def Let_def)
    have differs: "?target \<noteq> selectedTray s" by auto
    from click differs select [of ?target] changed [of ?target] select [of x] changed [of x]
      same [of x] True
    show ?thesis by auto
  next
    case False
    then have "slotClick u t s = s" by (auto simp: slotClick_def Let_def)
    with False select [of x] changed [of x] same [of x] show ?thesis by auto
  qed
qed

text \<open>
  Tray 37 is selected and loaded; a click on it (slot 1 of unit 9) deselects it and
  clears the flag, and a click on slot 0 of the same unit selects tray 36.
\<close>

theorem slot_click_toggles_selection_witness:
  "selectedTray (slotClick (sampleUnit 9) (plainSpool 1)
                   (render (traySnapshot 37) (initialSection 1 2))) = None
   \<and> \<not> loadTriggered (slotClick (sampleUnit 9) (plainSpool 1)
                          (render (traySnapshot 37) (initialSection 1 2)))
   \<and> selectedTray (slotClick (sampleUnit 9) (plainSpool 0)
                      (render (traySnapshot 37) (initialSection 1 2))) = Some 36"
proof -
  let ?s = "render (traySnapshot 37) (initialSection 1 2)"
  have sel: "selectedTray ?s = Some 37"
    by (simp add: render_def runSyncEffect_def syncEffect_def Let_def initialSection_def)
  have ok: "\<not> isEmpty (plainSpool i)" "\<not> isPrinting (status ?s)" for i
    by (simp_all add: isEmpty_def plainSpool_def isPrinting_def traySnapshot_def)
  have gid: "globalTrayId (sampleUnit 9) (plainSpool 1) = 37"
    "globalTrayId (sampleUnit 9) (plainSpool 0) = 36"
    by (simp_all add: globalTrayId_def plainSpool_def)
  from slot_click_toggles_selection [of "sampleUnit 9" "plainSpool 1" ?s None]
       slot_click_toggles_selection [of "sampleUnit 9" "plainSpool 0" ?s None]
       sel ok gid
  show ?thesis by simp
qed

end
